theory Spec2Isabelle
  imports Complex_Main "HOL-Library.Sublist"
begin

section \<open>Forward-mode automatic differentiation by operator overloading\<close>

text \<open>
  The development embeds the class \<open>ADTangent\<close> of the notebook
  \<open>05Framework/02AutoDiff/05ForwardMode.ipynb\<close> and the cell that evaluates
  \<open>f(x1, x2) = ln(x1) + x1 * x2 - sin(x2)\<close> with it.

  Numbers. A Python \<open>float\<close> and a numpy \<open>float64\<close> are IEEE-754 doubles. In the
  methods they are modelled by the type \<open>fl\<close>: a finite value is an exact real, and the
  three special values \<open>inf\<close>, \<open>-inf\<close> and \<open>nan\<close> are constructors of their own. The
  methods are embedded with exact operations on finite values: rounding, overflow to
  infinity and the sign of zero are left out of them, and so are the \<open>OverflowError\<close> of
  converting a huge \<open>int\<close> to a double and the \<open>TypeError\<close> of \<open>np.log\<close>, \<open>np.sin\<close> and
  \<open>np.cos\<close> on an \<open>int\<close> outside the 64-bit range. Rounding to the nearest double is
  defined separately (\<open>dbl\<close>) and used where a property turns on the last bit. Python's
  unbounded \<open>int\<close> is \<open>int\<close>.
\<close>

subsection \<open>Doubles\<close>

datatype fl = Fin real | PInf | NInf | NaN

fun fl_neg :: "fl \<Rightarrow> fl" where
  "fl_neg (Fin a) = Fin (- a)"
| "fl_neg PInf = NInf"
| "fl_neg NInf = PInf"
| "fl_neg NaN = NaN"

fun fl_add :: "fl \<Rightarrow> fl \<Rightarrow> fl" where
  "fl_add NaN b = NaN"
| "fl_add a NaN = NaN"
| "fl_add (Fin a) (Fin b) = Fin (a + b)"
| "fl_add PInf NInf = NaN"
| "fl_add NInf PInf = NaN"
| "fl_add PInf b = PInf"
| "fl_add a PInf = PInf"
| "fl_add NInf b = NInf"
| "fl_add a NInf = NInf"

definition fl_sub :: "fl \<Rightarrow> fl \<Rightarrow> fl" where
  "fl_sub a b = fl_add a (fl_neg b)"

text \<open>The infinity of the sign of a non-zero real.\<close>

definition inf_sign :: "real \<Rightarrow> fl" where
  "inf_sign a = (if a = 0 then NaN else if 0 < a then PInf else NInf)"

fun fl_mul :: "fl \<Rightarrow> fl \<Rightarrow> fl" where
  "fl_mul NaN b = NaN"
| "fl_mul a NaN = NaN"
| "fl_mul (Fin a) (Fin b) = Fin (a * b)"
| "fl_mul (Fin a) PInf = inf_sign a"
| "fl_mul (Fin a) NInf = inf_sign (- a)"
| "fl_mul PInf (Fin b) = inf_sign b"
| "fl_mul NInf (Fin b) = inf_sign (- b)"
| "fl_mul PInf PInf = PInf"
| "fl_mul PInf NInf = NInf"
| "fl_mul NInf PInf = NInf"
| "fl_mul NInf NInf = PInf"

text \<open>
  IEEE division, as numpy performs it on \<open>float64\<close> scalars: a zero divisor gives an
  infinity or \<open>nan\<close> (with a warning on the console), never an exception.
\<close>

fun fl_div :: "fl \<Rightarrow> fl \<Rightarrow> fl" where
  "fl_div NaN b = NaN"
| "fl_div a NaN = NaN"
| "fl_div (Fin a) (Fin b) = (if b = 0 then inf_sign a else Fin (a / b))"
| "fl_div (Fin a) PInf = Fin 0"
| "fl_div (Fin a) NInf = Fin 0"
| "fl_div PInf (Fin b) = (if 0 \<le> b then PInf else NInf)"
| "fl_div NInf (Fin b) = (if 0 \<le> b then NInf else PInf)"
| "fl_div a b = NaN"

text \<open>\<open>np.log\<close>, \<open>np.sin\<close> and \<open>np.cos\<close> on a double.\<close>

fun fl_log :: "fl \<Rightarrow> fl" where
  "fl_log (Fin a) = (if 0 < a then Fin (ln a) else if a = 0 then NInf else NaN)"
| "fl_log PInf = PInf"
| "fl_log NInf = NaN"
| "fl_log NaN = NaN"

fun fl_sin :: "fl \<Rightarrow> fl" where
  "fl_sin (Fin a) = Fin (sin a)"
| "fl_sin a = NaN"

fun fl_cos :: "fl \<Rightarrow> fl" where
  "fl_cos (Fin a) = Fin (cos a)"
| "fl_cos a = NaN"

subsection \<open>Python numbers\<close>

text \<open>
  The fields of an \<open>ADTangent\<close> hold a Python \<open>int\<close> (the seeds \<open>dx=1\<close>, \<open>dx=0\<close>), a
  Python \<open>float\<close> (\<open>x=2.\<close>) or a numpy \<open>float64\<close> (what \<open>np.log\<close> and \<open>np.sin\<close> return).
  The three are kept apart because the code tests \<open>isinstance(other, float)\<close> and
  because only numpy divides by zero without raising.
\<close>

datatype pynum = PyInt int | PyFloat fl | NpFloat64 fl

datatype exn = ZeroDivisionError | TypeError | AttributeError | NameError

fun to_fl :: "pynum \<Rightarrow> fl" where
  "to_fl (PyInt i) = Fin (of_int i)"
| "to_fl (PyFloat a) = a"
| "to_fl (NpFloat64 a) = a"

fun is_np :: "pynum \<Rightarrow> bool" where
  "is_np (NpFloat64 a) = True"
| "is_np n = False"

text \<open>\<open>isinstance(n, float)\<close>: \<open>numpy.float64\<close> is a subclass of \<open>float\<close>, \<open>int\<close> is not.\<close>

fun isinstance_float :: "pynum \<Rightarrow> bool" where
  "isinstance_float (PyInt i) = False"
| "isinstance_float (PyFloat a) = True"
| "isinstance_float (NpFloat64 a) = True"

text \<open>The class of a mixed result: \<open>float64\<close> as soon as one operand is one.\<close>

definition mk_float :: "pynum \<Rightarrow> pynum \<Rightarrow> fl \<Rightarrow> pynum" where
  "mk_float a b v = (if is_np a \<or> is_np b then NpFloat64 v else PyFloat v)"

fun py_add :: "pynum \<Rightarrow> pynum \<Rightarrow> pynum" where
  "py_add (PyInt i) (PyInt j) = PyInt (i + j)"
| "py_add a b = mk_float a b (fl_add (to_fl a) (to_fl b))"

fun py_sub :: "pynum \<Rightarrow> pynum \<Rightarrow> pynum" where
  "py_sub (PyInt i) (PyInt j) = PyInt (i - j)"
| "py_sub a b = mk_float a b (fl_sub (to_fl a) (to_fl b))"

fun py_mul :: "pynum \<Rightarrow> pynum \<Rightarrow> pynum" where
  "py_mul (PyInt i) (PyInt j) = PyInt (i * j)"
| "py_mul a b = mk_float a b (fl_mul (to_fl a) (to_fl b))"

text \<open>
  True division \<open>a / b\<close>. Between Python \<open>int\<close>s and \<open>float\<close>s a zero divisor raises
  \<open>ZeroDivisionError\<close>; when a \<open>float64\<close> takes part numpy computes the IEEE result.
\<close>

definition py_truediv :: "pynum \<Rightarrow> pynum \<Rightarrow> exn + pynum" where
  "py_truediv a b =
     (if is_np a \<or> is_np b then Inr (NpFloat64 (fl_div (to_fl a) (to_fl b)))
      else if to_fl b = Fin 0 then Inl ZeroDivisionError
      else Inr (PyFloat (fl_div (to_fl a) (to_fl b))))"

definition np_log :: "pynum \<Rightarrow> pynum" where
  "np_log a = NpFloat64 (fl_log (to_fl a))"

definition np_sin :: "pynum \<Rightarrow> pynum" where
  "np_sin a = NpFloat64 (fl_sin (to_fl a))"

definition np_cos :: "pynum \<Rightarrow> pynum" where
  "np_cos a = NpFloat64 (fl_cos (to_fl a))"

subsection \<open>Objects and the class \<open>ADTangent\<close>\<close>

text \<open>
  An instance has the two attributes \<open>x\<close> and \<open>dx\<close>. Instances live in a store, a list
  indexed by address; creating an instance appends to it. A Python value is a reference
  to an instance, a number, the class object \<open>NotImplementedError\<close>, or \<open>None\<close> (which
  stands for the operands that are neither an instance nor a number).
\<close>

record ADTangent =
  x :: pynum
  dx :: pynum

type_synonym heap = "ADTangent list"

datatype pyval = Ref nat | Num pynum | NotImplementedError | PyNone

text \<open>\<open>__init__(self, x, dx)\<close>, together with the allocation of \<open>self\<close>.\<close>

definition ADTangent_init :: "pynum \<Rightarrow> pynum \<Rightarrow> heap \<Rightarrow> nat \<times> heap" where
  "ADTangent_init xv dxv h = (length h, h @ [\<lparr>x = xv, dx = dxv\<rparr>])"

text \<open>\<open>__add__(self, other)\<close>\<close>

definition ADTangent_add :: "nat \<Rightarrow> pyval \<Rightarrow> heap \<Rightarrow> pyval \<times> heap" where
  "ADTangent_add self other h =
     (case other of
        Ref r \<Rightarrow>
          (let xv = py_add (x (h ! self)) (x (h ! r));
               dxv = py_add (dx (h ! self)) (dx (h ! r));
               (n, h') = ADTangent_init xv dxv h
           in (Ref n, h'))
      | Num c \<Rightarrow>
          (if isinstance_float c then
             (let xv = py_add (x (h ! self)) c;
                  dxv = dx (h ! self);
                  (n, h') = ADTangent_init xv dxv h
              in (Ref n, h'))
           else (NotImplementedError, h))
      | _ \<Rightarrow> (NotImplementedError, h))"

text \<open>\<open>__sub__(self, other)\<close>\<close>

definition ADTangent_sub :: "nat \<Rightarrow> pyval \<Rightarrow> heap \<Rightarrow> pyval \<times> heap" where
  "ADTangent_sub self other h =
     (case other of
        Ref r \<Rightarrow>
          (let xv = py_sub (x (h ! self)) (x (h ! r));
               dxv = py_sub (dx (h ! self)) (dx (h ! r));
               (n, h') = ADTangent_init xv dxv h
           in (Ref n, h'))
      | Num c \<Rightarrow>
          (if isinstance_float c then
             (let xv = py_sub (x (h ! self)) c;
                  dxv = dx (h ! self);
                  (n, h') = ADTangent_init xv dxv h
              in (Ref n, h'))
           else (NotImplementedError, h))
      | _ \<Rightarrow> (NotImplementedError, h))"

text \<open>\<open>__mul__(self, other)\<close>\<close>

definition ADTangent_mul :: "nat \<Rightarrow> pyval \<Rightarrow> heap \<Rightarrow> pyval \<times> heap" where
  "ADTangent_mul self other h =
     (case other of
        Ref r \<Rightarrow>
          (let xv = py_mul (x (h ! self)) (x (h ! r));
               dxv = py_add (py_mul (x (h ! self)) (dx (h ! r)))
                            (py_mul (dx (h ! self)) (x (h ! r)));
               (n, h') = ADTangent_init xv dxv h
           in (Ref n, h'))
      | Num c \<Rightarrow>
          (if isinstance_float c then
             (let xv = py_mul (x (h ! self)) c;
                  dxv = py_mul (dx (h ! self)) c;
                  (n, h') = ADTangent_init xv dxv h
              in (Ref n, h'))
           else (NotImplementedError, h))
      | _ \<Rightarrow> (NotImplementedError, h))"

text \<open>
  \<open>log(self)\<close>: \<open>x = np.log(self.x)\<close>, \<open>dx = 1 / self.x * self.dx\<close>. The quotient
  \<open>1 / self.x\<close> is the one place of the class where an exception can arise.
\<close>

definition ADTangent_log :: "nat \<Rightarrow> heap \<Rightarrow> (exn + pyval) \<times> heap" where
  "ADTangent_log self h =
     (let xv = np_log (x (h ! self)) in
      case py_truediv (PyInt 1) (x (h ! self)) of
        Inl e \<Rightarrow> (Inl e, h)
      | Inr q \<Rightarrow>
          (let dxv = py_mul q (dx (h ! self));
               (n, h') = ADTangent_init xv dxv h
           in (Inr (Ref n), h')))"

text \<open>\<open>sin(self)\<close>: \<open>x = np.sin(self.x)\<close>, \<open>dx = self.dx * np.cos(self.x)\<close>.\<close>

definition ADTangent_sin :: "nat \<Rightarrow> heap \<Rightarrow> pyval \<times> heap" where
  "ADTangent_sin self h =
     (let xv = np_sin (x (h ! self));
          dxv = py_mul (dx (h ! self)) (np_cos (x (h ! self)));
          (n, h') = ADTangent_init xv dxv h
      in (Ref n, h'))"

subsection \<open>Expressions over the class\<close>

text \<open>
  The evaluation cell writes an ordinary Python expression; the interpreter turns each
  operator into a method call on the left operand. \<open>ADTangent\<close> defines \<open>__add__\<close>,
  \<open>__sub__\<close> and \<open>__mul__\<close> and nothing else: no \<open>__truediv__\<close> and no reflected method,
  so \<open>a / b\<close> and \<open>2.0 + a\<close> raise \<open>TypeError\<close>. A value returned by a method is the
  value of the expression, whatever it is.
\<close>

datatype binop = Add | Sub | Mul | TrueDiv

definition num_binop :: "binop \<Rightarrow> pynum \<Rightarrow> pynum \<Rightarrow> exn + pynum" where
  "num_binop bop a b =
     (case bop of
        Add \<Rightarrow> Inr (py_add a b)
      | Sub \<Rightarrow> Inr (py_sub a b)
      | Mul \<Rightarrow> Inr (py_mul a b)
      | TrueDiv \<Rightarrow> py_truediv a b)"

definition py_binop :: "binop \<Rightarrow> pyval \<Rightarrow> pyval \<Rightarrow> heap \<Rightarrow> (exn + pyval) \<times> heap" where
  "py_binop bop l r h =
     (case l of
        Ref a \<Rightarrow>
          (case bop of
             Add \<Rightarrow> (case ADTangent_add a r h of (v, h') \<Rightarrow> (Inr v, h'))
           | Sub \<Rightarrow> (case ADTangent_sub a r h of (v, h') \<Rightarrow> (Inr v, h'))
           | Mul \<Rightarrow> (case ADTangent_mul a r h of (v, h') \<Rightarrow> (Inr v, h'))
           | TrueDiv \<Rightarrow> (Inl TypeError, h))
      | Num c \<Rightarrow>
          (case r of
             Num d \<Rightarrow> (case num_binop bop c d of Inl e \<Rightarrow> (Inl e, h) | Inr v \<Rightarrow> (Inr (Num v), h))
           | _ \<Rightarrow> (Inl TypeError, h))
      | _ \<Rightarrow> (Inl TypeError, h))"

text \<open>
  The calls \<open>ADTangent.log(e)\<close>, \<open>ADTangent.sin(e)\<close>, \<open>ADTangent.cos(e)\<close> and
  \<open>ADTangent.exp(e)\<close>. The class has the attributes \<open>log\<close> and \<open>sin\<close>; looking up
  \<open>cos\<close> or \<open>exp\<close> on it raises \<open>AttributeError\<close> before the argument is evaluated.
  An argument that is not an instance has no attribute \<open>x\<close>.
\<close>

datatype func = Log | Sin | Cos | Exp

fun ADTangent_has :: "func \<Rightarrow> bool" where
  "ADTangent_has Log = True"
| "ADTangent_has Sin = True"
| "ADTangent_has Cos = False"
| "ADTangent_has Exp = False"

definition py_call :: "func \<Rightarrow> pyval \<Rightarrow> heap \<Rightarrow> (exn + pyval) \<times> heap" where
  "py_call fn v h =
     (case v of
        Ref a \<Rightarrow>
          (case fn of
             Log \<Rightarrow> ADTangent_log a h
           | Sin \<Rightarrow> (case ADTangent_sin a h of (w, h') \<Rightarrow> (Inr w, h'))
           | _ \<Rightarrow> (Inl AttributeError, h))
      | _ \<Rightarrow> (Inl AttributeError, h))"

datatype expr =
    Var nat
  | Const pynum
  | BinOp binop expr expr
  | Call func expr

text \<open>
  Evaluation is left to right; an exception ends it. Variable \<open>i\<close> is the \<open>i\<close>-th name
  bound by the driver.
\<close>

fun eval :: "expr \<Rightarrow> pyval list \<Rightarrow> heap \<Rightarrow> (exn + pyval) \<times> heap" where
  "eval (Var i) env h = (if i < length env then (Inr (env ! i), h) else (Inl NameError, h))"
| "eval (Const c) env h = (Inr (Num c), h)"
| "eval (BinOp bop e1 e2) env h =
     (case eval e1 env h of
        (Inl e, h1) \<Rightarrow> (Inl e, h1)
      | (Inr v1, h1) \<Rightarrow>
          (case eval e2 env h1 of
             (Inl e, h2) \<Rightarrow> (Inl e, h2)
           | (Inr v2, h2) \<Rightarrow> py_binop bop v1 v2 h2))"
| "eval (Call fn e1) env h =
     (if ADTangent_has fn then
        (case eval e1 env h of
           (Inl e, h1) \<Rightarrow> (Inl e, h1)
         | (Inr v, h1) \<Rightarrow> py_call fn v h1)
      else (Inl AttributeError, h))"

subsection \<open>The evaluation driver\<close>

text \<open>
  \<open>x1 = ADTangent(x=.., dx=..)\<close>, \<open>x2 = ADTangent(x=.., dx=..)\<close>, then
  \<open>f = ADTangent.log(x1) + x1 * x2 - ADTangent.sin(x2)\<close>. The notebook runs it with the
  seeds \<open>(2., 1)\<close> and \<open>(5., 0)\<close>; the seeds are parameters here.
\<close>

definition f_expr :: expr where
  "f_expr = BinOp Sub (BinOp Add (Call Log (Var 0)) (BinOp Mul (Var 0) (Var 1)))
                      (Call Sin (Var 1))"

definition driver :: "pynum \<times> pynum \<Rightarrow> pynum \<times> pynum \<Rightarrow> heap \<Rightarrow> (exn + pyval) \<times> heap" where
  "driver s1 s2 h =
     (let (x1, h1) = ADTangent_init (fst s1) (snd s1) h;
          (x2, h2) = ADTangent_init (fst s2) (snd s2) h1
      in eval f_expr [Ref x1, Ref x2] h2)"

text \<open>The same pattern for any expression and any number of seeded variables.\<close>

fun seed :: "(pynum \<times> pynum) list \<Rightarrow> heap \<Rightarrow> pyval list \<times> heap" where
  "seed [] h = ([], h)"
| "seed (s # ss) h =
     (case ADTangent_init (fst s) (snd s) h of
        (n, h1) \<Rightarrow> (case seed ss h1 of (env, h2) \<Rightarrow> (Ref n # env, h2)))"

definition run :: "expr \<Rightarrow> (pynum \<times> pynum) list \<Rightarrow> heap \<Rightarrow> (exn + pyval) \<times> heap" where
  "run e ss h = (case seed ss h of (env, h1) \<Rightarrow> eval e env h1)"

text \<open>
  What the caller can observe of a result: the exception, or the value with the two
  fields of the instance it refers to (what \<open>print(f)\<close> reads).
\<close>

datatype obs = ODual ADTangent | ONum pynum | ONotImplementedError | ONone

fun observe :: "heap \<Rightarrow> pyval \<Rightarrow> obs" where
  "observe h (Ref r) = ODual (h ! r)"
| "observe h (Num c) = ONum c"
| "observe h NotImplementedError = ONotImplementedError"
| "observe h PyNone = ONone"

fun outcome :: "(exn + pyval) \<times> heap \<Rightarrow> exn + obs" where
  "outcome (Inl e, h) = Inl e"
| "outcome (Inr v, h) = Inr (observe h v)"

fun valid :: "heap \<Rightarrow> pyval \<Rightarrow> bool" where
  "valid h (Ref r) = (r < length h)"
| "valid h v = True"

text \<open>Reading the two components of an instance as doubles.\<close>

definition primal :: "ADTangent \<Rightarrow> fl" where
  "primal d = to_fl (x d)"

definition tangent :: "ADTangent \<Rightarrow> fl" where
  "tangent d = to_fl (dx d)"

text \<open>
  The operands a binary method accepts: an instance, or a number that is a \<open>float\<close>.
\<close>

fun supported :: "pyval \<Rightarrow> bool" where
  "supported (Ref b) = True"
| "supported (Num c) = isinstance_float c"
| "supported v = False"

text \<open>
  The effect of a method call on the store: the instances that existed before are the
  first entries of the new store, unchanged; when the call returns an instance, it is
  the single new entry; when it returns anything else, the store is the old one.
\<close>

definition frame :: "heap \<Rightarrow> pyval \<times> heap \<Rightarrow> bool" where
  "frame h res =
     (take (length h) (snd res) = h \<and>
      (case fst res of
         Ref r \<Rightarrow> r = length h \<and> length (snd res) = Suc (length h)
       | _ \<Rightarrow> snd res = h))"

text \<open>
  Two values in two stores look the same to the program when both are well-formed and
  are observed alike; two results are alike when they raise the same exception or return
  values that look the same, each in a store that extends the one it started from.
\<close>

definition sim :: "heap \<Rightarrow> pyval \<Rightarrow> heap \<Rightarrow> pyval \<Rightarrow> bool" where
  "sim h v h' v' = (valid h v \<and> valid h' v' \<and> observe h v = observe h' v')"

fun res_sim :: "heap \<Rightarrow> (exn + pyval) \<times> heap \<Rightarrow> heap \<Rightarrow> (exn + pyval) \<times> heap \<Rightarrow> bool" where
  "res_sim h (Inl e, k) h' (Inl e', k') = (e = e' \<and> prefix h k \<and> prefix h' k')"
| "res_sim h (Inr w, k) h' (Inr w', k') = (sim k w k' w' \<and> prefix h k \<and> prefix h' k')"
| "res_sim h R h' R' = False"

subsection \<open>Rounding to a double\<close>







section \<open>Properties\<close>

subsection \<open>Arithmetic of Python numbers is arithmetic of their values\<close>

lemma to_fl_mk_float: "to_fl (mk_float a b v) = v"
  by (simp add: mk_float_def)

lemma to_fl_py_add: "to_fl (py_add a b) = fl_add (to_fl a) (to_fl b)"
  by (cases a; cases b) (simp_all add: mk_float_def)

lemma to_fl_py_sub: "to_fl (py_sub a b) = fl_sub (to_fl a) (to_fl b)"
  by (cases a; cases b) (simp_all add: mk_float_def fl_sub_def)

lemma to_fl_py_mul: "to_fl (py_mul a b) = fl_mul (to_fl a) (to_fl b)"
  by (cases a; cases b) (simp_all add: mk_float_def)

lemma fl_sub_Fin: "fl_sub (Fin a) (Fin b) = Fin (a - b)"
  by (simp add: fl_sub_def)

lemma to_fl_np_log: "to_fl (np_log a) = fl_log (to_fl a)"
  by (simp add: np_log_def)



text \<open>
  The code computes the tangent of \<open>log\<close> as \<open>1 / x * dx\<close>. With exact operations this
  is \<open>dx / x\<close>; with rounded operations it need not be.
\<close>

lemma fl_mul_reciprocal: "fl_mul (fl_div (Fin 1) b) t = fl_div t b"
proof (cases b)
  case (Fin p)
  then show ?thesis
    by (cases t) (auto simp: inf_sign_def)
next
  case PInf
  then show ?thesis by (cases t) (simp_all add: inf_sign_def)
next
  case NInf
  then show ?thesis by (cases t) (simp_all add: inf_sign_def)
next
  case NaN
  then show ?thesis by (cases t) simp_all
qed

lemma py_truediv_one:
  "py_truediv (PyInt 1) b =
     (if is_np b then Inr (NpFloat64 (fl_div (Fin 1) (to_fl b)))
      else if to_fl b = Fin 0 then Inl ZeroDivisionError
      else Inr (PyFloat (fl_div (Fin 1) (to_fl b))))"
  by (simp add: py_truediv_def)

lemmas method_defs =
  ADTangent_init_def ADTangent_add_def ADTangent_sub_def ADTangent_mul_def
  ADTangent_log_def ADTangent_sin_def

subsection \<open>The binary operators\<close>

text \<open>
  Claim C1. For instances \<open>a\<close> and \<open>b\<close>, \<open>a * b\<close> returns a new instance whose primal is
  the product of the primals and whose tangent is
  \<open>a.primal * b.tangent + a.tangent * b.primal\<close>; for a float constant \<open>c\<close>, \<open>a * c\<close>
  returns a new instance with primal \<open>a.primal * c\<close> and tangent \<open>a.tangent * c\<close>.
  The new instance is the one appended to the store.
\<close>

theorem mul_product_rule:
  assumes "a < length h" and "b < length h" and "isinstance_float c"
  shows "(\<exists>d. ADTangent_mul a (Ref b) h = (Ref (length h), h @ [d]) \<and>
              primal d = fl_mul (primal (h ! a)) (primal (h ! b)) \<and>
              tangent d = fl_add (fl_mul (primal (h ! a)) (tangent (h ! b)))
                                 (fl_mul (tangent (h ! a)) (primal (h ! b)))) \<and>
         (\<exists>d. ADTangent_mul a (Num c) h = (Ref (length h), h @ [d]) \<and>
              primal d = fl_mul (primal (h ! a)) (to_fl c) \<and>
              tangent d = fl_mul (tangent (h ! a)) (to_fl c))"
  using assms
  by (simp add: method_defs primal_def tangent_def to_fl_py_mul to_fl_py_add)

theorem mul_product_rule_witness:
  "(0::nat) < length [\<lparr>x = PyFloat (Fin 2), dx = PyInt 1\<rparr>, \<lparr>x = PyFloat (Fin 5), dx = PyInt 0\<rparr>] \<and>
   (1::nat) < length [\<lparr>x = PyFloat (Fin 2), dx = PyInt 1\<rparr>, \<lparr>x = PyFloat (Fin 5), dx = PyInt 0\<rparr>] \<and>
   isinstance_float (PyFloat (Fin 3)) \<and>
   (\<exists>d. ADTangent_mul 0 (Ref 1)
           [\<lparr>x = PyFloat (Fin 2), dx = PyInt 1\<rparr>, \<lparr>x = PyFloat (Fin 5), dx = PyInt 0\<rparr>] =
          (Ref 2, [\<lparr>x = PyFloat (Fin 2), dx = PyInt 1\<rparr>, \<lparr>x = PyFloat (Fin 5), dx = PyInt 0\<rparr>] @ [d]) \<and>
        primal d = Fin 10 \<and> tangent d = Fin 5) \<and>
   (\<exists>d. ADTangent_mul 0 (Num (PyFloat (Fin 3)))
           [\<lparr>x = PyFloat (Fin 2), dx = PyInt 1\<rparr>, \<lparr>x = PyFloat (Fin 5), dx = PyInt 0\<rparr>] =
          (Ref 2, [\<lparr>x = PyFloat (Fin 2), dx = PyInt 1\<rparr>, \<lparr>x = PyFloat (Fin 5), dx = PyInt 0\<rparr>] @ [d]) \<and>
        primal d = Fin 6 \<and> tangent d = Fin 3)"
  using mul_product_rule [of 0 "[\<lparr>x = PyFloat (Fin 2), dx = PyInt 1\<rparr>, \<lparr>x = PyFloat (Fin 5), dx = PyInt 0\<rparr>]"
      1 "PyFloat (Fin 3)"]
  by (simp add: numeral_2_eq_2 primal_def tangent_def)

text \<open>
  Claim C2. For instances \<open>a\<close> and \<open>b\<close>, \<open>a + b\<close> returns an instance with the sum of the
  primals and the sum of the tangents, and \<open>a - b\<close> one with the difference of the
  primals and the difference of the tangents; for a float constant \<open>c\<close>, \<open>a + c\<close> and
  \<open>a - c\<close> have primal \<open>a.primal + c\<close> and \<open>a.primal - c\<close> and keep the tangent of \<open>a\<close>.
\<close>

theorem add_sub_rule:
  assumes "a < length h" and "b < length h" and "isinstance_float c"
  shows "(\<exists>d. ADTangent_add a (Ref b) h = (Ref (length h), h @ [d]) \<and>
              primal d = fl_add (primal (h ! a)) (primal (h ! b)) \<and>
              tangent d = fl_add (tangent (h ! a)) (tangent (h ! b))) \<and>
         (\<exists>d. ADTangent_sub a (Ref b) h = (Ref (length h), h @ [d]) \<and>
              primal d = fl_sub (primal (h ! a)) (primal (h ! b)) \<and>
              tangent d = fl_sub (tangent (h ! a)) (tangent (h ! b))) \<and>
         (\<exists>d. ADTangent_add a (Num c) h = (Ref (length h), h @ [d]) \<and>
              primal d = fl_add (primal (h ! a)) (to_fl c) \<and>
              dx d = dx (h ! a)) \<and>
         (\<exists>d. ADTangent_sub a (Num c) h = (Ref (length h), h @ [d]) \<and>
              primal d = fl_sub (primal (h ! a)) (to_fl c) \<and>
              dx d = dx (h ! a))"
  using assms
  by (simp add: method_defs primal_def tangent_def to_fl_py_add to_fl_py_sub)

theorem add_sub_rule_witness:
  "(0::nat) < length [\<lparr>x = PyFloat (Fin 2), dx = PyInt 1\<rparr>, \<lparr>x = PyFloat (Fin 5), dx = PyInt 0\<rparr>] \<and> (1::nat) < length [\<lparr>x = PyFloat (Fin 2), dx = PyInt 1\<rparr>, \<lparr>x = PyFloat (Fin 5), dx = PyInt 0\<rparr>] \<and> isinstance_float (PyFloat (Fin 3)) \<and>
   (\<exists>d. ADTangent_add 0 (Ref 1) [\<lparr>x = PyFloat (Fin 2), dx = PyInt 1\<rparr>, \<lparr>x = PyFloat (Fin 5), dx = PyInt 0\<rparr>] = (Ref 2, [\<lparr>x = PyFloat (Fin 2), dx = PyInt 1\<rparr>, \<lparr>x = PyFloat (Fin 5), dx = PyInt 0\<rparr>] @ [d]) \<and>
        primal d = Fin 7 \<and> tangent d = Fin 1) \<and>
   (\<exists>d. ADTangent_sub 0 (Ref 1) [\<lparr>x = PyFloat (Fin 2), dx = PyInt 1\<rparr>, \<lparr>x = PyFloat (Fin 5), dx = PyInt 0\<rparr>] = (Ref 2, [\<lparr>x = PyFloat (Fin 2), dx = PyInt 1\<rparr>, \<lparr>x = PyFloat (Fin 5), dx = PyInt 0\<rparr>] @ [d]) \<and>
        primal d = Fin (- 3) \<and> tangent d = Fin 1) \<and>
   (\<exists>d. ADTangent_add 0 (Num (PyFloat (Fin 3))) [\<lparr>x = PyFloat (Fin 2), dx = PyInt 1\<rparr>, \<lparr>x = PyFloat (Fin 5), dx = PyInt 0\<rparr>] = (Ref 2, [\<lparr>x = PyFloat (Fin 2), dx = PyInt 1\<rparr>, \<lparr>x = PyFloat (Fin 5), dx = PyInt 0\<rparr>] @ [d]) \<and>
        primal d = Fin 5 \<and> dx d = PyInt 1) \<and>
   (\<exists>d. ADTangent_sub 0 (Num (PyFloat (Fin 3))) [\<lparr>x = PyFloat (Fin 2), dx = PyInt 1\<rparr>, \<lparr>x = PyFloat (Fin 5), dx = PyInt 0\<rparr>] = (Ref 2, [\<lparr>x = PyFloat (Fin 2), dx = PyInt 1\<rparr>, \<lparr>x = PyFloat (Fin 5), dx = PyInt 0\<rparr>] @ [d]) \<and>
        primal d = Fin (- 1) \<and> dx d = PyInt 1)"
  using add_sub_rule [of 0 "[\<lparr>x = PyFloat (Fin 2), dx = PyInt 1\<rparr>, \<lparr>x = PyFloat (Fin 5), dx = PyInt 0\<rparr>]" 1 "PyFloat (Fin 3)"]
  by (simp add: numeral_2_eq_2 primal_def tangent_def fl_sub_def)

subsection \<open>Operands that are neither an instance nor a float\<close>

text \<open>
  Claim C10. For an instance \<open>a\<close> and a Python integer \<open>n\<close>, each of \<open>a + n\<close>, \<open>a - n\<close>
  and \<open>a * n\<close> takes the \<open>else\<close> branch, because \<open>isinstance(n, float)\<close> is false, and
  the value of the expression is the class \<open>NotImplementedError\<close> itself: no exception
  is raised and no instance is created.
\<close>

theorem int_operand_returns_class:
  assumes "a < length h"
  shows "ADTangent_add a (Num (PyInt n)) h = (NotImplementedError, h) \<and>
         ADTangent_sub a (Num (PyInt n)) h = (NotImplementedError, h) \<and>
         ADTangent_mul a (Num (PyInt n)) h = (NotImplementedError, h) \<and>
         py_binop Add (Ref a) (Num (PyInt n)) h = (Inr NotImplementedError, h) \<and>
         py_binop Sub (Ref a) (Num (PyInt n)) h = (Inr NotImplementedError, h) \<and>
         py_binop Mul (Ref a) (Num (PyInt n)) h = (Inr NotImplementedError, h)"
  by (simp add: method_defs py_binop_def)

theorem int_operand_returns_class_witness:
  "(0::nat) < length [\<lparr>x = PyFloat (Fin 2), dx = PyInt 1\<rparr>, \<lparr>x = PyFloat (Fin 5), dx = PyInt 0\<rparr>] \<and>
   ADTangent_add 0 (Num (PyInt 3)) [\<lparr>x = PyFloat (Fin 2), dx = PyInt 1\<rparr>, \<lparr>x = PyFloat (Fin 5), dx = PyInt 0\<rparr>] = (NotImplementedError, [\<lparr>x = PyFloat (Fin 2), dx = PyInt 1\<rparr>, \<lparr>x = PyFloat (Fin 5), dx = PyInt 0\<rparr>]) \<and>
   ADTangent_sub 0 (Num (PyInt 3)) [\<lparr>x = PyFloat (Fin 2), dx = PyInt 1\<rparr>, \<lparr>x = PyFloat (Fin 5), dx = PyInt 0\<rparr>] = (NotImplementedError, [\<lparr>x = PyFloat (Fin 2), dx = PyInt 1\<rparr>, \<lparr>x = PyFloat (Fin 5), dx = PyInt 0\<rparr>]) \<and>
   ADTangent_mul 0 (Num (PyInt 3)) [\<lparr>x = PyFloat (Fin 2), dx = PyInt 1\<rparr>, \<lparr>x = PyFloat (Fin 5), dx = PyInt 0\<rparr>] = (NotImplementedError, [\<lparr>x = PyFloat (Fin 2), dx = PyInt 1\<rparr>, \<lparr>x = PyFloat (Fin 5), dx = PyInt 0\<rparr>]) \<and>
   py_binop Add (Ref 0) (Num (PyInt 3)) [\<lparr>x = PyFloat (Fin 2), dx = PyInt 1\<rparr>, \<lparr>x = PyFloat (Fin 5), dx = PyInt 0\<rparr>] = (Inr NotImplementedError, [\<lparr>x = PyFloat (Fin 2), dx = PyInt 1\<rparr>, \<lparr>x = PyFloat (Fin 5), dx = PyInt 0\<rparr>]) \<and>
   py_binop Sub (Ref 0) (Num (PyInt 3)) [\<lparr>x = PyFloat (Fin 2), dx = PyInt 1\<rparr>, \<lparr>x = PyFloat (Fin 5), dx = PyInt 0\<rparr>] = (Inr NotImplementedError, [\<lparr>x = PyFloat (Fin 2), dx = PyInt 1\<rparr>, \<lparr>x = PyFloat (Fin 5), dx = PyInt 0\<rparr>]) \<and>
   py_binop Mul (Ref 0) (Num (PyInt 3)) [\<lparr>x = PyFloat (Fin 2), dx = PyInt 1\<rparr>, \<lparr>x = PyFloat (Fin 5), dx = PyInt 0\<rparr>] = (Inr NotImplementedError, [\<lparr>x = PyFloat (Fin 2), dx = PyInt 1\<rparr>, \<lparr>x = PyFloat (Fin 5), dx = PyInt 0\<rparr>])"
  using int_operand_returns_class [of 0 "[\<lparr>x = PyFloat (Fin 2), dx = PyInt 1\<rparr>, \<lparr>x = PyFloat (Fin 5), dx = PyInt 0\<rparr>]" 3]
  by simp

text \<open>
  Claim C5. A binary operation on an instance and an operand that is neither an instance
  nor a float should fail with a propagated error. The code does not: evaluating
  \<open>x1 + None\<close> with \<open>x1 = ADTangent(2., 1)\<close> raises nothing and yields the class
  \<open>NotImplementedError\<close> as an ordinary value, and so do \<open>x1 - None\<close> and \<open>x1 * None\<close>.
\<close>

theorem unsupported_operand_yields_value:
  "eval (BinOp Add (Var 0) (Var 1)) [Ref 0, PyNone] [\<lparr>x = PyFloat (Fin 2), dx = PyInt 1\<rparr>] =
     (Inr NotImplementedError, [\<lparr>x = PyFloat (Fin 2), dx = PyInt 1\<rparr>]) \<and>
   eval (BinOp Sub (Var 0) (Var 1)) [Ref 0, PyNone] [\<lparr>x = PyFloat (Fin 2), dx = PyInt 1\<rparr>] =
     (Inr NotImplementedError, [\<lparr>x = PyFloat (Fin 2), dx = PyInt 1\<rparr>]) \<and>
   eval (BinOp Mul (Var 0) (Var 1)) [Ref 0, PyNone] [\<lparr>x = PyFloat (Fin 2), dx = PyInt 1\<rparr>] =
     (Inr NotImplementedError, [\<lparr>x = PyFloat (Fin 2), dx = PyInt 1\<rparr>])"
  by (simp add: py_binop_def method_defs)

subsection \<open>The elementary functions\<close>








text \<open>
  Claim C6, as amended. The code has no domain check. When the primal of \<open>a\<close> is a Python
  \<open>int\<close> or \<open>float\<close> equal to zero, \<open>log(a)\<close> raises \<open>ZeroDivisionError\<close>, which reaches the
  caller, and creates nothing. When it is a numpy \<open>float64\<close> equal to zero, no exception
  is raised and the result has primal \<open>-inf\<close>. When it is a negative finite double, no
  exception is raised and the result has primal \<open>nan\<close> and tangent
  \<open>1 / a.primal * a.tangent\<close>.
\<close>

theorem log_outside_domain:
  assumes "a < length h" and "primal (h ! a) = Fin p"
  shows "(p = 0 \<and> \<not> is_np (x (h ! a)) \<longrightarrow>
            ADTangent_log a h = (Inl ZeroDivisionError, h)) \<and>
         (p = 0 \<and> is_np (x (h ! a)) \<longrightarrow>
            (\<exists>d. ADTangent_log a h = (Inr (Ref (length h)), h @ [d]) \<and>
                 primal d = NInf)) \<and>
         (p < 0 \<and> isinstance_float (x (h ! a)) \<longrightarrow>
            (\<exists>d. ADTangent_log a h = (Inr (Ref (length h)), h @ [d]) \<and>
                 primal d = NaN \<and>
                 tangent d = fl_mul (fl_div (Fin 1) (Fin p)) (tangent (h ! a))))"
  using assms
  by (auto simp: method_defs primal_def tangent_def py_truediv_one to_fl_py_mul
      to_fl_mk_float to_fl_np_log)

theorem log_outside_domain_witness:
  "ADTangent_log 0 [\<lparr>x = PyFloat (Fin 0), dx = PyFloat (Fin 3)\<rparr>] =
      (Inl ZeroDivisionError, [\<lparr>x = PyFloat (Fin 0), dx = PyFloat (Fin 3)\<rparr>]) \<and>
   (\<exists>d. ADTangent_log 0 [\<lparr>x = NpFloat64 (Fin 0), dx = PyFloat (Fin 3)\<rparr>] =
          (Inr (Ref 1), [\<lparr>x = NpFloat64 (Fin 0), dx = PyFloat (Fin 3)\<rparr>] @ [d]) \<and>
        primal d = NInf) \<and>
   (\<exists>d. ADTangent_log 0 [\<lparr>x = PyFloat (Fin (- 2)), dx = PyFloat (Fin 3)\<rparr>] =
          (Inr (Ref 1), [\<lparr>x = PyFloat (Fin (- 2)), dx = PyFloat (Fin 3)\<rparr>] @ [d]) \<and>
        primal d = NaN \<and> tangent d = fl_mul (fl_div (Fin 1) (Fin (- 2))) (Fin 3))"
  using log_outside_domain [of 0 "[\<lparr>x = PyFloat (Fin 0), dx = PyFloat (Fin 3)\<rparr>]" 0]
    log_outside_domain [of 0 "[\<lparr>x = NpFloat64 (Fin 0), dx = PyFloat (Fin 3)\<rparr>]" 0]
    log_outside_domain [of 0 "[\<lparr>x = PyFloat (Fin (- 2)), dx = PyFloat (Fin 3)\<rparr>]" "- 2"]
  by (simp add: primal_def tangent_def)

text \<open>
  The claim as stated asks for an error at every primal that is zero or negative. At
  \<open>ADTangent(-1., 1.)\<close> the call returns an instance with primal \<open>nan\<close> and the finite
  tangent \<open>-1\<close>, and raises nothing.
\<close>

theorem log_negative_primal_returns:
  "ADTangent_log 0 [\<lparr>x = PyFloat (Fin (- 1)), dx = PyFloat (Fin 1)\<rparr>] =
     (Inr (Ref 1), [\<lparr>x = PyFloat (Fin (- 1)), dx = PyFloat (Fin 1)\<rparr>,
                    \<lparr>x = NpFloat64 NaN, dx = PyFloat (Fin (- 1))\<rparr>])"
  by (simp add: method_defs py_truediv_def np_log_def mk_float_def)

subsection \<open>Operations the class does not define\<close>

text \<open>
  Claim C7, as amended. The class defines \<open>__add__\<close>, \<open>__sub__\<close>, \<open>__mul__\<close>, \<open>log\<close> and
  \<open>sin\<close> only. It has no division: \<open>a / v\<close> raises \<open>TypeError\<close> for an instance \<open>a\<close> and
  any operand \<open>v\<close>. It has no \<open>cos\<close> and no \<open>exp\<close>: \<open>ADTangent.cos(e)\<close> and
  \<open>ADTangent.exp(e)\<close> raise \<open>AttributeError\<close>.
\<close>

theorem no_div_cos_exp:
  "py_binop TrueDiv (Ref a) v h = (Inl TypeError, h) \<and>
   eval (Call Cos e) env h = (Inl AttributeError, h) \<and>
   eval (Call Exp e) env h = (Inl AttributeError, h) \<and>
   ADTangent_has fn = (fn = Log \<or> fn = Sin)"
  by (cases fn) (simp_all add: py_binop_def)

text \<open>
  The claim as stated promises a quotient, a cosine and an exponential. With
  \<open>x1 = ADTangent(6., 1)\<close> and \<open>x2 = ADTangent(3., 0)\<close>, \<open>x1 / x2\<close> raises \<open>TypeError\<close>
  and \<open>ADTangent.cos(x1)\<close>, \<open>ADTangent.exp(x1)\<close> raise \<open>AttributeError\<close>.
\<close>

theorem div_cos_exp_missing:
  "eval (BinOp TrueDiv (Var 0) (Var 1)) [Ref 0, Ref 1]
      [\<lparr>x = PyFloat (Fin 6), dx = PyInt 1\<rparr>, \<lparr>x = PyFloat (Fin 3), dx = PyInt 0\<rparr>] =
     (Inl TypeError, [\<lparr>x = PyFloat (Fin 6), dx = PyInt 1\<rparr>, \<lparr>x = PyFloat (Fin 3), dx = PyInt 0\<rparr>]) \<and>
   eval (Call Cos (Var 0)) [Ref 0, Ref 1]
      [\<lparr>x = PyFloat (Fin 6), dx = PyInt 1\<rparr>, \<lparr>x = PyFloat (Fin 3), dx = PyInt 0\<rparr>] =
     (Inl AttributeError, [\<lparr>x = PyFloat (Fin 6), dx = PyInt 1\<rparr>, \<lparr>x = PyFloat (Fin 3), dx = PyInt 0\<rparr>]) \<and>
   eval (Call Exp (Var 0)) [Ref 0, Ref 1]
      [\<lparr>x = PyFloat (Fin 6), dx = PyInt 1\<rparr>, \<lparr>x = PyFloat (Fin 3), dx = PyInt 0\<rparr>] =
     (Inl AttributeError, [\<lparr>x = PyFloat (Fin 6), dx = PyInt 1\<rparr>, \<lparr>x = PyFloat (Fin 3), dx = PyInt 0\<rparr>])"
  by (simp add: py_binop_def)

subsection \<open>The evaluation cell\<close>

text \<open>Bounds on \<open>sin 5\<close>, \<open>cos 5\<close> and \<open>ln 2\<close> from their Taylor polynomials.\<close>

lemma sin5_sum: "(\<Sum>m<24. sin_coeff m * (5::real) ^ m) = - 39664203007138136755 / 41363226782215962624"
  by (simp add: sin_coeff_def lessThan_nat_numeral fact_numeral)

lemma cos5_sum: "(\<Sum>m<24. cos_coeff m * (5::real) ^ m) = 26849380963687727 / 94652692865482752"
  by (simp add: cos_coeff_def lessThan_nat_numeral fact_numeral)

lemma rem5: "inverse (fact 24) * \<bar>5::real\<bar> ^ 24 < 1 / 10000000"
  by (simp add: fact_numeral)

lemma sin5_bounds: "- 95893 / 100000 < sin (5::real) \<and> sin (5::real) < - 95892 / 100000"
proof -
  have "\<bar>sin (5::real) - (\<Sum>m<24. sin_coeff m * 5 ^ m)\<bar> \<le> inverse (fact 24) * \<bar>5\<bar> ^ 24"
    by (rule Maclaurin_sin_bound)
  then have "\<bar>sin (5::real) - (- 39664203007138136755 / 41363226782215962624)\<bar> < 1 / 10000000"
    using rem5 by (simp only: sin5_sum)
  then show ?thesis by linarith
qed

lemma cos5_bounds: "28366 / 100000 < cos (5::real) \<and> cos (5::real) < 28367 / 100000"
proof -
  obtain t :: real where
    t: "cos 5 = (\<Sum>m<24. cos_coeff m * 5 ^ m) + (cos (t + 1/2 * real 24 * pi) / fact 24) * 5 ^ 24"
    using Maclaurin_cos_expansion [of 5 24] by blast
  have "\<bar>cos (t + 1/2 * real 24 * pi)\<bar> \<le> 1" by (rule abs_cos_le_one)
  then have "\<bar>(cos (t + 1/2 * real 24 * pi) / fact 24) * 5 ^ 24\<bar> \<le> 1 / fact 24 * 5 ^ 24"
    by (simp add: abs_mult divide_right_mono mult_right_mono del: of_nat_numeral)
  also have "\<dots> < 1 / 10000000" by (simp add: fact_numeral)
  finally have "\<bar>cos (5::real) - 26849380963687727 / 94652692865482752\<bar> < 1 / 10000000"
    using t by (simp only: cos5_sum)
  then show ?thesis by linarith
qed


lemma exp_sum_lo: "(\<Sum>m<10. (69316 / 100000 :: real) ^ m / fact m) = 2768590168627525208312722525404328008150188569/1384277343750000000000000000000000000000000000"
  by (simp add: lessThan_nat_numeral fact_numeral power_divide)

lemma exp_sum_hi: "(\<Sum>m<10. (69314 / 100000 :: real) ^ m / fact m) = 202498545179844383733554805212617868203148089351/101250000000000000000000000000000000000000000000"
  by (simp add: lessThan_nat_numeral fact_numeral power_divide)

lemma ln2_bounds: "69314 / 100000 < ln (2::real) \<and> ln (2::real) < 69316 / 100000"
proof -
  obtain t :: real where t: "\<bar>t\<bar> \<le> \<bar>69314 / 100000\<bar>"
     "exp (69314 / 100000) = (\<Sum>m<10. (69314 / 100000 :: real) ^ m / fact m) + (exp t / fact 10) * (69314 / 100000) ^ 10"
    using Maclaurin_exp_le [of "69314 / 100000" 10] by blast
  have "exp t \<le> exp 1" using t(1) by simp
  also have "\<dots> \<le> 3" by (rule exp_le)
  finally have "(exp t / fact 10) * (69314 / 100000) ^ 10 \<le> (3 / fact 10) * (69314 / 100000) ^ 10"
    by (simp add: divide_right_mono mult_right_mono del: of_nat_numeral)
  also have "\<dots> < 1 / 1000000" by (simp add: fact_numeral power_divide)
  finally have "exp (69314 / 100000 :: real) < 2"
    using t(2) by (simp only: exp_sum_hi)
  then have lo: "69314 / 100000 < ln (2::real)"
    by (metis exp_less_cancel_iff exp_ln zero_less_numeral)
  obtain u :: real where u: "\<bar>u\<bar> \<le> \<bar>69316 / 100000\<bar>"
     "exp (69316 / 100000) = (\<Sum>m<10. (69316 / 100000 :: real) ^ m / fact m) + (exp u / fact 10) * (69316 / 100000) ^ 10"
    using Maclaurin_exp_le [of "69316 / 100000" 10] by blast
  have "0 \<le> (exp u / fact 10) * (69316 / 100000 :: real) ^ 10" by simp
  then have "2 < exp (69316 / 100000 :: real)"
    using u(2) by (simp only: exp_sum_lo)
  then have hi: "ln (2::real) < 69316 / 100000"
    by (metis exp_less_cancel_iff exp_ln zero_less_numeral)
  show ?thesis using lo hi by simp
qed

lemmas expr_defs =
  driver_def f_expr_def py_binop_def py_call_def np_log_def np_sin_def np_cos_def
  py_truediv_def mk_float_def fl_sub_def

text \<open>The store after the cell has run, for the two seedings, from any store \<open>h\<close>.\<close>

lemma driver_seed_x1:
  "driver (PyFloat (Fin 2), PyInt 1) (PyFloat (Fin 5), PyInt 0) h =
     (Inr (Ref (length h + 6)),
      h @ [\<lparr>x = PyFloat (Fin 2), dx = PyInt 1\<rparr>,
           \<lparr>x = PyFloat (Fin 5), dx = PyInt 0\<rparr>,
           \<lparr>x = NpFloat64 (Fin (ln 2)), dx = PyFloat (Fin (1 / 2))\<rparr>,
           \<lparr>x = PyFloat (Fin 10), dx = PyFloat (Fin 5)\<rparr>,
           \<lparr>x = NpFloat64 (Fin (ln 2 + 10)), dx = PyFloat (Fin (11 / 2))\<rparr>,
           \<lparr>x = NpFloat64 (Fin (sin 5)), dx = NpFloat64 (Fin 0)\<rparr>,
           \<lparr>x = NpFloat64 (Fin (ln 2 + 10 - sin 5)), dx = NpFloat64 (Fin (11 / 2))\<rparr>])"
  by (simp add: expr_defs method_defs nth_append Let_def)

lemma driver_seed_x2:
  "driver (PyFloat (Fin 2), PyInt 0) (PyFloat (Fin 5), PyInt 1) h =
     (Inr (Ref (length h + 6)),
      h @ [\<lparr>x = PyFloat (Fin 2), dx = PyInt 0\<rparr>,
           \<lparr>x = PyFloat (Fin 5), dx = PyInt 1\<rparr>,
           \<lparr>x = NpFloat64 (Fin (ln 2)), dx = PyFloat (Fin 0)\<rparr>,
           \<lparr>x = PyFloat (Fin 10), dx = PyFloat (Fin 2)\<rparr>,
           \<lparr>x = NpFloat64 (Fin (ln 2 + 10)), dx = PyFloat (Fin 2)\<rparr>,
           \<lparr>x = NpFloat64 (Fin (sin 5)), dx = NpFloat64 (Fin (cos 5))\<rparr>,
           \<lparr>x = NpFloat64 (Fin (ln 2 + 10 - sin 5)), dx = NpFloat64 (Fin (2 - cos 5))\<rparr>])"
  by (simp add: expr_defs method_defs nth_append Let_def)

lemma f_value_bound: "\<bar>(ln 2 + 10 - sin 5) - 116521 / 10000 :: real\<bar> < 5 / 100000"
  using ln2_bounds sin5_bounds by linarith

lemma f_partial_x2_bound: "\<bar>(2 - cos 5) - 17163 / 10000 :: real\<bar> < 5 / 100000"
  using cos5_bounds by linarith

text \<open>
  Claim C4. Evaluating \<open>f(x1, x2) = ln(x1) + x1 * x2 - sin(x2)\<close> with \<open>x1\<close> seeded
  \<open>(2.0, 1)\<close> and \<open>x2\<close> seeded \<open>(5.0, 0)\<close> returns an instance whose primal \<open>v\<close> is
  \<open>11.6521\<close> to four decimal places and whose tangent is \<open>5.5\<close>. Evaluating it again, in
  the store the first pass left, with \<open>x1\<close> seeded \<open>(2.0, 0)\<close> and \<open>x2\<close> seeded \<open>(5.0, 1)\<close>
  returns an instance with the same primal \<open>v\<close> and a tangent \<open>t\<close> that is \<open>1.7163\<close> to
  four decimal places.
\<close>

theorem driver_value_and_partials:
  "\<exists>v t r1 h1 r2 h2.
     driver (PyFloat (Fin 2), PyInt 1) (PyFloat (Fin 5), PyInt 0) h = (Inr (Ref r1), h1) \<and>
     primal (h1 ! r1) = Fin v \<and> tangent (h1 ! r1) = Fin (11 / 2) \<and>
     driver (PyFloat (Fin 2), PyInt 0) (PyFloat (Fin 5), PyInt 1) h1 = (Inr (Ref r2), h2) \<and>
     primal (h2 ! r2) = Fin v \<and> tangent (h2 ! r2) = Fin t \<and>
     \<bar>v - 116521 / 10000\<bar> < 5 / 100000 \<and> \<bar>t - 17163 / 10000\<bar> < 5 / 100000"
proof -
  let ?v = "ln 2 + 10 - sin 5 :: real" and ?t = "2 - cos 5 :: real"
  obtain h1 where h1: "driver (PyFloat (Fin 2), PyInt 1) (PyFloat (Fin 5), PyInt 0) h
      = (Inr (Ref (length h + 6)), h1)"
    and v1: "primal (h1 ! (length h + 6)) = Fin ?v" "tangent (h1 ! (length h + 6)) = Fin (11 / 2)"
    by (simp add: driver_seed_x1 primal_def tangent_def nth_append)
  obtain h2 where h2: "driver (PyFloat (Fin 2), PyInt 0) (PyFloat (Fin 5), PyInt 1) h1
      = (Inr (Ref (length h1 + 6)), h2)"
    and v2: "primal (h2 ! (length h1 + 6)) = Fin ?v" "tangent (h2 ! (length h1 + 6)) = Fin ?t"
    by (simp add: driver_seed_x2 primal_def tangent_def nth_append)
  from h1 v1 h2 v2 f_value_bound f_partial_x2_bound show ?thesis
    by blast
qed

subsection \<open>Operations do not modify instances\<close>

lemma frame_add: "frame h (ADTangent_add a v h)"
  by (cases v) (simp_all add: frame_def method_defs)

lemma frame_sub: "frame h (ADTangent_sub a v h)"
  by (cases v) (simp_all add: frame_def method_defs)

lemma frame_mul: "frame h (ADTangent_mul a v h)"
  by (cases v) (simp_all add: frame_def method_defs)

lemma frame_sin: "frame h (ADTangent_sin a h)"
  by (simp add: frame_def method_defs)

lemma frame_log:
  "(case ADTangent_log a h of (Inl e, h') \<Rightarrow> h' = h | (Inr w, h') \<Rightarrow> frame h (w, h'))"
  by (simp add: frame_def method_defs split: sum.splits)

lemma supported_returns_instance:
  assumes "supported v"
  shows "fst (ADTangent_add a v h) = Ref (length h)"
    and "fst (ADTangent_sub a v h) = Ref (length h)"
    and "fst (ADTangent_mul a v h) = Ref (length h)"
  using assms by (cases v; simp add: method_defs)+

text \<open>
  Claim C9. Each of \<open>add\<close>, \<open>sub\<close>, \<open>mul\<close>, \<open>log\<close> and \<open>sin\<close>, on any operand, leaves
  every instance that exists when it is called as it is, the operands among them: the
  old store is the beginning of the new one. An instance that is returned is the one new
  entry of the store; the binary methods return one for every supported operand, \<open>sin\<close>
  always, \<open>log\<close> whenever it does not raise. No method writes to an attribute of an
  existing instance.
\<close>

theorem operations_do_not_mutate:
  assumes "a < length h"
  shows "frame h (ADTangent_add a v h) \<and>
         frame h (ADTangent_sub a v h) \<and>
         frame h (ADTangent_mul a v h) \<and>
         frame h (ADTangent_sin a h) \<and> fst (ADTangent_sin a h) = Ref (length h) \<and>
         (case ADTangent_log a h of
            (Inl e, h') \<Rightarrow> h' = h
          | (Inr w, h') \<Rightarrow> frame h (w, h') \<and> w = Ref (length h)) \<and>
         (supported v \<longrightarrow>
            fst (ADTangent_add a v h) = Ref (length h) \<and>
            fst (ADTangent_sub a v h) = Ref (length h) \<and>
            fst (ADTangent_mul a v h) = Ref (length h))"
proof -
  have "fst (ADTangent_sin a h) = Ref (length h)"
    by (simp add: method_defs)
  moreover have "(case ADTangent_log a h of
            (Inl e, h') \<Rightarrow> h' = h
          | (Inr w, h') \<Rightarrow> frame h (w, h') \<and> w = Ref (length h))"
    by (simp add: frame_def method_defs split: sum.splits)
  ultimately show ?thesis
    using supported_returns_instance [of v a h] frame_add frame_sub frame_mul frame_sin
    by simp
qed

theorem operations_do_not_mutate_witness:
  "(1::nat) < length [\<lparr>x = PyFloat (Fin 2), dx = PyInt 1\<rparr>, \<lparr>x = PyFloat (Fin 5), dx = PyInt 0\<rparr>] \<and> supported (Ref 0) \<and>
   ADTangent_add 1 (Ref 0) [\<lparr>x = PyFloat (Fin 2), dx = PyInt 1\<rparr>, \<lparr>x = PyFloat (Fin 5), dx = PyInt 0\<rparr>] =
     (Ref 2, [\<lparr>x = PyFloat (Fin 2), dx = PyInt 1\<rparr>, \<lparr>x = PyFloat (Fin 5), dx = PyInt 0\<rparr>] @ [\<lparr>x = PyFloat (Fin 7), dx = PyInt 1\<rparr>]) \<and>
   ADTangent_sub 1 (Ref 0) [\<lparr>x = PyFloat (Fin 2), dx = PyInt 1\<rparr>, \<lparr>x = PyFloat (Fin 5), dx = PyInt 0\<rparr>] =
     (Ref 2, [\<lparr>x = PyFloat (Fin 2), dx = PyInt 1\<rparr>, \<lparr>x = PyFloat (Fin 5), dx = PyInt 0\<rparr>] @ [\<lparr>x = PyFloat (Fin 3), dx = PyInt (- 1)\<rparr>]) \<and>
   ADTangent_mul 1 (Ref 0) [\<lparr>x = PyFloat (Fin 2), dx = PyInt 1\<rparr>, \<lparr>x = PyFloat (Fin 5), dx = PyInt 0\<rparr>] =
     (Ref 2, [\<lparr>x = PyFloat (Fin 2), dx = PyInt 1\<rparr>, \<lparr>x = PyFloat (Fin 5), dx = PyInt 0\<rparr>] @ [\<lparr>x = PyFloat (Fin 10), dx = PyFloat (Fin 5)\<rparr>]) \<and>
   frame [\<lparr>x = PyFloat (Fin 2), dx = PyInt 1\<rparr>, \<lparr>x = PyFloat (Fin 5), dx = PyInt 0\<rparr>] (ADTangent_add 1 (Ref 0) [\<lparr>x = PyFloat (Fin 2), dx = PyInt 1\<rparr>, \<lparr>x = PyFloat (Fin 5), dx = PyInt 0\<rparr>]) \<and>
   frame [\<lparr>x = PyFloat (Fin 2), dx = PyInt 1\<rparr>, \<lparr>x = PyFloat (Fin 5), dx = PyInt 0\<rparr>] (ADTangent_sub 1 (Ref 0) [\<lparr>x = PyFloat (Fin 2), dx = PyInt 1\<rparr>, \<lparr>x = PyFloat (Fin 5), dx = PyInt 0\<rparr>]) \<and>
   frame [\<lparr>x = PyFloat (Fin 2), dx = PyInt 1\<rparr>, \<lparr>x = PyFloat (Fin 5), dx = PyInt 0\<rparr>] (ADTangent_mul 1 (Ref 0) [\<lparr>x = PyFloat (Fin 2), dx = PyInt 1\<rparr>, \<lparr>x = PyFloat (Fin 5), dx = PyInt 0\<rparr>]) \<and>
   frame [\<lparr>x = PyFloat (Fin 2), dx = PyInt 1\<rparr>, \<lparr>x = PyFloat (Fin 5), dx = PyInt 0\<rparr>] (ADTangent_sin 1 [\<lparr>x = PyFloat (Fin 2), dx = PyInt 1\<rparr>, \<lparr>x = PyFloat (Fin 5), dx = PyInt 0\<rparr>]) \<and> fst (ADTangent_sin 1 [\<lparr>x = PyFloat (Fin 2), dx = PyInt 1\<rparr>, \<lparr>x = PyFloat (Fin 5), dx = PyInt 0\<rparr>]) = Ref 2 \<and>
   frame [\<lparr>x = PyFloat (Fin 2), dx = PyInt 1\<rparr>, \<lparr>x = PyFloat (Fin 5), dx = PyInt 0\<rparr>] (Ref 2, snd (ADTangent_log 1 [\<lparr>x = PyFloat (Fin 2), dx = PyInt 1\<rparr>, \<lparr>x = PyFloat (Fin 5), dx = PyInt 0\<rparr>])) \<and> fst (ADTangent_log 1 [\<lparr>x = PyFloat (Fin 2), dx = PyInt 1\<rparr>, \<lparr>x = PyFloat (Fin 5), dx = PyInt 0\<rparr>]) = Inr (Ref 2)"
  using operations_do_not_mutate [of 1 "[\<lparr>x = PyFloat (Fin 2), dx = PyInt 1\<rparr>, \<lparr>x = PyFloat (Fin 5), dx = PyInt 0\<rparr>]" "Ref 0"]
  by (simp add: method_defs py_truediv_one mk_float_def fl_sub_def numeral_2_eq_2 split: sum.splits)

subsection \<open>Evaluation has no hidden state\<close>

lemma sim_mono:
  assumes "sim h v h' v'" and "prefix h k" and "prefix h' k'"
  shows "sim k v k' v'"
  using assms by (cases v; cases v') (auto simp: sim_def prefix_def nth_append)

lemma res_sim_trans:
  assumes "res_sim k R k' R'" and "prefix h k" and "prefix h' k'"
  shows "res_sim h R h' R'"
  using assms by (cases "(k, R, k', R')" rule: res_sim.cases) auto

lemma res_sim_outcome: "res_sim h R h' R' \<Longrightarrow> outcome R = outcome R'"
  by (cases "(h, R, h', R')" rule: res_sim.cases) (auto simp: sim_def)

lemma add_sim:
  assumes "a < length h" and "a' < length h'" and "h ! a = h' ! a'" and "sim h v h' v'"
  shows "res_sim h (case ADTangent_add a v h of (w, k) \<Rightarrow> (Inr w, k))
               h' (case ADTangent_add a' v' h' of (w, k) \<Rightarrow> (Inr w, k))"
  using assms by (cases v; cases v') (auto simp: sim_def method_defs)

lemma sub_sim:
  assumes "a < length h" and "a' < length h'" and "h ! a = h' ! a'" and "sim h v h' v'"
  shows "res_sim h (case ADTangent_sub a v h of (w, k) \<Rightarrow> (Inr w, k))
               h' (case ADTangent_sub a' v' h' of (w, k) \<Rightarrow> (Inr w, k))"
  using assms by (cases v; cases v') (auto simp: sim_def method_defs)

lemma mul_sim:
  assumes "a < length h" and "a' < length h'" and "h ! a = h' ! a'" and "sim h v h' v'"
  shows "res_sim h (case ADTangent_mul a v h of (w, k) \<Rightarrow> (Inr w, k))
               h' (case ADTangent_mul a' v' h' of (w, k) \<Rightarrow> (Inr w, k))"
  using assms by (cases v; cases v') (auto simp: sim_def method_defs)

lemma log_sim:
  assumes "a < length h" and "a' < length h'" and "h ! a = h' ! a'"
  shows "res_sim h (ADTangent_log a h) h' (ADTangent_log a' h')"
  using assms by (auto simp: sim_def method_defs split: sum.splits)

lemma sin_sim:
  assumes "a < length h" and "a' < length h'" and "h ! a = h' ! a'"
  shows "res_sim h (case ADTangent_sin a h of (w, k) \<Rightarrow> (Inr w, k))
               h' (case ADTangent_sin a' h' of (w, k) \<Rightarrow> (Inr w, k))"
  using assms by (auto simp: sim_def method_defs)

lemma binop_sim:
  assumes "sim h l h' l'" and "sim h r h' r'"
  shows "res_sim h (py_binop bop l r h) h' (py_binop bop l' r' h')"
proof (cases l)
  case (Ref a)
  with assms(1) obtain a' where l': "l' = Ref a'" and a: "a < length h" "a' < length h'" "h ! a = h' ! a'"
    by (cases l') (auto simp: sim_def)
  show ?thesis
    using add_sim [OF a assms(2)] sub_sim [OF a assms(2)] mul_sim [OF a assms(2)]
    by (cases bop) (simp_all add: py_binop_def Ref l')
next
  case (Num c)
  with assms(1) have l': "l' = Num c" by (cases l') (auto simp: sim_def)
  show ?thesis
    using assms(2)
    by (cases r; cases r') (auto simp: py_binop_def Num l' sim_def split: sum.splits)
next
  case NotImplementedError
  with assms(1) have "l' = NotImplementedError" by (cases l') (auto simp: sim_def)
  with NotImplementedError show ?thesis by (simp add: py_binop_def)
next
  case PyNone
  with assms(1) have "l' = PyNone" by (cases l') (auto simp: sim_def)
  with PyNone show ?thesis by (simp add: py_binop_def)
qed

lemma call_sim:
  assumes "sim h v h' v'"
  shows "res_sim h (py_call fn v h) h' (py_call fn v' h')"
proof (cases v)
  case (Ref a)
  with assms obtain a' where v': "v' = Ref a'" and a: "a < length h" "a' < length h'" "h ! a = h' ! a'"
    by (cases v') (auto simp: sim_def)
  show ?thesis
    using log_sim [OF a] sin_sim [OF a]
    by (cases fn) (simp_all add: py_call_def Ref v')
next
  case (Num c)
  with assms have "v' = Num c" by (cases v') (auto simp: sim_def)
  with Num show ?thesis by (simp add: py_call_def)
next
  case NotImplementedError
  with assms have "v' = NotImplementedError" by (cases v') (auto simp: sim_def)
  with NotImplementedError show ?thesis by (simp add: py_call_def)
next
  case PyNone
  with assms have "v' = PyNone" by (cases v') (auto simp: sim_def)
  with PyNone show ?thesis by (simp add: py_call_def)
qed

lemma env_sim_mono:
  assumes "list_all2 (\<lambda>v v'. sim h v h' v') env env'" and "prefix h k" and "prefix h' k'"
  shows "list_all2 (\<lambda>v v'. sim k v k' v') env env'"
  using assms(1) by (rule list_all2_mono) (rule sim_mono [OF _ assms(2,3)])

lemma eval_sim:
  assumes "list_all2 (\<lambda>v v'. sim h v h' v') env env'"
  shows "res_sim h (eval e env h) h' (eval e env' h')"
  using assms
proof (induction e arbitrary: h h')
  case (Var i)
  then show ?case
    by (auto simp: list_all2_conv_all_nth)
next
  case (Const c)
  then show ?case by (simp add: sim_def)
next
  case (BinOp bop e1 e2)
  obtain R k where E: "eval e1 env h = (R, k)" by (cases "eval e1 env h")
  obtain R' k' where E': "eval e1 env' h' = (R', k')" by (cases "eval e1 env' h'")
  have r1: "res_sim h (R, k) h' (R', k')"
    using BinOp.IH(1) [OF BinOp.prems] by (simp add: E E')
  show ?case
  proof (cases R)
    case (Inl e)
    with r1 show ?thesis by (cases R') (simp_all add: E E')
  next
    case (Inr v1)
    note R = this
    with r1 obtain v1' where R': "R' = Inr v1'" by (cases R') simp_all
    from r1 have s1: "sim k v1 k' v1'" and p: "prefix h k" "prefix h' k'"
      by (simp_all add: R R')
    obtain S m where F: "eval e2 env k = (S, m)" by (cases "eval e2 env k")
    obtain S' m' where F': "eval e2 env' k' = (S', m')" by (cases "eval e2 env' k'")
    have r2: "res_sim k (S, m) k' (S', m')"
      using BinOp.IH(2) [OF env_sim_mono [OF BinOp.prems p]] by (simp add: F F')
    show ?thesis
    proof (cases S)
      case (Inl e)
      with r2 p show ?thesis
        by (cases S') (auto simp: E E' F F' R R' intro: prefix_order.trans)
    next
      case (Inr v2)
      note S = this
      with r2 obtain v2' where S': "S' = Inr v2'" by (cases S') simp_all
      from r2 have s2: "sim m v2 m' v2'" and q: "prefix k m" "prefix k' m'"
        by (simp_all add: S S')
      have "res_sim m (py_binop bop v1 v2 m) m' (py_binop bop v1' v2' m')"
        by (rule binop_sim [OF sim_mono [OF s1 q] s2])
      moreover have "prefix h m" and "prefix h' m'"
        using p q by (auto intro: prefix_order.trans)
      ultimately have "res_sim h (py_binop bop v1 v2 m) h' (py_binop bop v1' v2' m')"
        by (rule res_sim_trans)
      then show ?thesis by (simp add: E E' F F' R R' S S')
    qed
  qed
next
  case (Call fn e1)
  obtain R k where E: "eval e1 env h = (R, k)" by (cases "eval e1 env h")
  obtain R' k' where E': "eval e1 env' h' = (R', k')" by (cases "eval e1 env' h'")
  have r1: "res_sim h (R, k) h' (R', k')"
    using Call.IH [OF Call.prems] by (simp add: E E')
  show ?case
  proof (cases "ADTangent_has fn")
    case False
    then show ?thesis by simp
  next
    case True
    show ?thesis
    proof (cases R)
      case (Inl e)
      with r1 True show ?thesis by (cases R') (simp_all add: E E')
    next
      case (Inr v1)
      note R = this
      with r1 obtain v1' where R': "R' = Inr v1'" by (cases R') simp_all
      from r1 have s1: "sim k v1 k' v1'" and p: "prefix h k" "prefix h' k'"
        by (simp_all add: R R')
      have "res_sim k (py_call fn v1 k) k' (py_call fn v1' k')"
        by (rule call_sim [OF s1])
      then have "res_sim h (py_call fn v1 k) h' (py_call fn v1' k')"
        by (rule res_sim_trans) (rule p)+
      with True show ?thesis by (simp add: E E' R R')
    qed
  qed
qed

lemma seed_sim:
  "list_all2 (\<lambda>v v'. sim (snd (seed ss h)) v (snd (seed ss h')) v') (fst (seed ss h)) (fst (seed ss h'))
   \<and> prefix h (snd (seed ss h)) \<and> prefix h' (snd (seed ss h'))"
proof (induction ss arbitrary: h h')
  case Nil
  show ?case by simp
next
  case (Cons s ss)
  let ?d = "\<lparr>x = fst s, dx = snd s\<rparr>"
  let ?k = "snd (seed ss (h @ [?d]))" and ?k' = "snd (seed ss (h' @ [?d]))"
  from Cons.IH [of "h @ [?d]" "h' @ [?d]"]
  have ih: "list_all2 (\<lambda>v v'. sim ?k v ?k' v') (fst (seed ss (h @ [?d]))) (fst (seed ss (h' @ [?d])))"
    and p: "prefix (h @ [?d]) ?k" "prefix (h' @ [?d]) ?k'"
    by simp_all
  from p have "sim ?k (Ref (length h)) ?k' (Ref (length h'))"
    by (auto simp: sim_def prefix_def nth_append)
  moreover from p have "prefix h ?k" "prefix h' ?k'"
    by (auto simp: prefix_def)
  ultimately show ?case
    using ih by (simp add: ADTangent_init_def case_prod_beta)
qed

lemma run_outcome_store_independent:
  "outcome (run e ss h) = outcome (run e ss h')"
proof -
  have "res_sim (snd (seed ss h)) (eval e (fst (seed ss h)) (snd (seed ss h)))
                (snd (seed ss h')) (eval e (fst (seed ss h')) (snd (seed ss h')))"
    using seed_sim [of ss h h'] by (intro eval_sim) simp
  then show ?thesis
    by (simp add: run_def case_prod_beta res_sim_outcome)
qed

lemma driver_run: "driver s1 s2 h = run f_expr [s1, s2] h"
  by (simp add: driver_def run_def ADTangent_init_def)

text \<open>
  Claim C8. What an evaluation yields (the exception, or the returned value with the
  primal and tangent it carries) is a function of the expression and the seeds alone: it
  does not depend on the store the evaluation starts from. So evaluating an expression
  twice with the same seeds yields the same result, and a pass gives the same result
  whether or not another pass, of any expression with any seeds, was evaluated before it.
  The same holds of the notebook's cell.
\<close>

theorem evaluation_deterministic:
  "outcome (run e ss h) = outcome (run e ss h') \<and>
   outcome (run e ss (snd (run e ss h))) = outcome (run e ss h) \<and>
   outcome (run e ss (snd (run e' ss' h))) = outcome (run e ss h) \<and>
   outcome (driver s1 s2 (snd (driver t1 t2 h))) = outcome (driver s1 s2 h)"
proof (intro conjI)
  show "outcome (run e ss h) = outcome (run e ss h')"
    by (rule run_outcome_store_independent)
  show "outcome (run e ss (snd (run e ss h))) = outcome (run e ss h)"
    by (rule run_outcome_store_independent)
  show "outcome (run e ss (snd (run e' ss' h))) = outcome (run e ss h)"
    by (rule run_outcome_store_independent)
  show "outcome (driver s1 s2 (snd (driver t1 t2 h))) = outcome (driver s1 s2 h)"
    unfolding driver_run by (rule run_outcome_store_independent)
qed

end
